theory Spec2Isabelle
  imports Complex_Main
begin

section \<open>The wishlist ledger of \<^verbatim>\<open>src/main.jsx\<close>\<close>

text \<open>
  The program is a single React component over a Firestore database. The durable state
  is the collection \<^verbatim>\<open>wishlistItems\<close> (one document per item) and, under each item, the
  subcollection \<^verbatim>\<open>contributions\<close>. Two handlers write to it: \<^verbatim>\<open>handleSubmitItem\<close>
  (create and edit, admin only) and \<^verbatim>\<open>handleContribute\<close>. Both are modelled as functions
  from the component state they read and the database to the new database and the
  message shown to the user. Changes of the component's own state (which modal is open,
  the form fields) are not durable and are left out.
\<close>

subsection \<open>JavaScript numbers\<close>

text \<open>
  A JavaScript number is an IEEE 754 double: NaN, one of the two infinities, or a finite
  value. A finite double is represented by the rational number it denotes; the two
  zeros are not told apart (they are equal, both falsy, and add alike). The numbers the
  program reads from \<^verbatim>\<open>parseFloat\<close> and from the store are doubles, and the sum of two
  doubles is the exact sum rounded to the nearest double, ties to the even significand,
  and to an infinity from \<open>2^1024 - 2^970\<close> on.
\<close>

datatype number = NaN | Infinity | NegInfinity | Num rat

text \<open>The number of binary digits of a positive integer.\<close>

function bitLength :: "int \<Rightarrow> int" where
  "bitLength n = (if n \<le> 0 then 0 else 1 + bitLength (n div 2))"
  by pat_completeness auto
termination
  by (relation "measure nat") auto

declare bitLength.simps [simp del]

text \<open>For a positive rational \<open>x\<close>, the integer \<open>k\<close> with \<open>2^k \<le> x < 2^(k+1)\<close>.\<close>

definition ilog2 :: "rat \<Rightarrow> int" where
  "ilog2 x = (if 1 \<le> x then bitLength \<lfloor>x\<rfloor> - 1 else - bitLength (\<lceil>1 / x\<rceil> - 1))"

definition pow2 :: "int \<Rightarrow> rat" where
  "pow2 e = (if 0 \<le> e then 2 ^ nat e else 1 / 2 ^ nat (- e))"

text \<open>The nearest integer to a non-negative rational, a tie going to the even one.\<close>

definition roundHalfEven :: "rat \<Rightarrow> int" where
  "roundHalfEven y =
     (let f = \<lfloor>y\<rfloor>; r = y - of_int f
      in if r < 1 / 2 then f else if 1 / 2 < r then f + 1 else if even f then f else f + 1)"

text \<open>
  Rounding a rational to a double: the significand has 53 binary digits, the exponent
  of the last digit is at least \<open>-1074\<close> (below that the value is subnormal), and a
  result of \<open>2^1024\<close> or more is an infinity.
\<close>

definition roundDouble :: "rat \<Rightarrow> number" where
  "roundDouble x =
     (if x = 0 then Num 0
      else let a = \<bar>x\<bar>;
               e = max (ilog2 a - 52) (- 1074);
               r = of_int (roundHalfEven (a / pow2 e)) * pow2 e
           in if 2 ^ 1024 \<le> r then (if 0 < x then Infinity else NegInfinity)
              else Num (if 0 < x then r else - r))"

text \<open>\<^verbatim>\<open>a + b\<close> on numbers.\<close>

fun num_add :: "number \<Rightarrow> number \<Rightarrow> number" where
  "num_add (Num a) (Num b) = roundDouble (a + b)"
| "num_add NaN _ = NaN"
| "num_add _ NaN = NaN"
| "num_add Infinity NegInfinity = NaN"
| "num_add NegInfinity Infinity = NaN"
| "num_add Infinity _ = Infinity"
| "num_add _ Infinity = Infinity"
| "num_add NegInfinity _ = NegInfinity"
| "num_add _ NegInfinity = NegInfinity"

text \<open>\<^verbatim>\<open>a <= b\<close>: false as soon as one side is NaN.\<close>

fun num_le :: "number \<Rightarrow> number \<Rightarrow> bool" where
  "num_le (Num a) (Num b) = (a \<le> b)"
| "num_le NaN _ = False"
| "num_le _ NaN = False"
| "num_le NegInfinity _ = True"
| "num_le _ Infinity = True"
| "num_le Infinity _ = False"
| "num_le _ NegInfinity = False"

text \<open>\<^verbatim>\<open>a >= b\<close>.\<close>

definition num_ge :: "number \<Rightarrow> number \<Rightarrow> bool" where
  "num_ge a b = num_le b a"

definition isNaN :: "number \<Rightarrow> bool" where
  "isNaN x = (x = NaN)"

text \<open>\<^verbatim>\<open>x || 0\<close> on a number: the falsy numbers are zero and NaN.\<close>

definition orZero :: "number \<Rightarrow> number" where
  "orZero x = (if x = NaN \<or> x = Num 0 then Num 0 else x)"

subsection \<open>Documents\<close>

text \<open>
  \<^verbatim>\<open>contributionType\<close> is the string \<^verbatim>\<open>'item'\<close> (one person buys the item) or
  \<^verbatim>\<open>'cash'\<close> (money is collected); the form's select offers no other value.
  \<^verbatim>\<open>status\<close> is one of the strings \<^verbatim>\<open>'Pending'\<close>, \<^verbatim>\<open>'Signed Up'\<close>, \<^verbatim>\<open>'Completed'\<close>.
\<close>

datatype ctype = Item | Cash

datatype status = Pending | SignedUp | Completed

type_synonym docId = string

text \<open>
  An item document. \<^verbatim>\<open>createdBy\<close>, \<^verbatim>\<open>creatorName\<close>, \<^verbatim>\<open>updatedAt\<close>, \<^verbatim>\<open>contributorId\<close> and
  \<^verbatim>\<open>contributorName\<close> are absent until some handler writes them. Dates are abstracted
  to natural numbers.
\<close>

record item =
  itemName :: string
  category :: string
  expectedCost :: number
  contributionType :: ctype
  dateNeeded :: string
  isPartialAllowed :: bool
  status :: status
  currentContributions :: number
  createdAt :: nat
  createdBy :: "string option"
  creatorName :: "string option"
  updatedAt :: "nat option"
  contributorId :: "string option"
  contributorName :: "string option"

text \<open>A document of the \<^verbatim>\<open>contributions\<close> subcollection (lines 379-384).\<close>

record contribution =
  userId :: string
  amount :: number
  timestamp :: nat
  c_contributorName :: string

text \<open>
  The database: the item documents by id, and for each item id the documents of its
  \<^verbatim>\<open>contributions\<close> subcollection in the order they were added (their generated ids are
  not modelled).
\<close>

record db =
  wishlistItems :: "docId \<rightharpoonup> item"
  contributions :: "docId \<Rightarrow> contribution list"

text \<open>The signed-in user, as far as the handlers read it. \<^verbatim>\<open>displayName\<close> may be null.\<close>

record user =
  uid :: string
  displayName :: "string option"

text \<open>
  An element of the component's \<^verbatim>\<open>items\<close> list, \<^verbatim>\<open>{ id: doc.id, ...doc.data() }\<close>
  (line 217). \<^verbatim>\<open>currentEditingItem\<close> holds such a copy from the moment the card was
  clicked; it is not refreshed when the document changes.
\<close>

record listedItem =
  itemId :: docId
  docData :: item

text \<open>What the user is shown at the end of a handler.\<close>

datatype outcome =
    Silent         \<comment> \<open>the handler returned without a message\<close>
  | Alert string   \<comment> \<open>\<^verbatim>\<open>showAlert(message)\<close>\<close>
  | Threw          \<comment> \<open>an exception left the handler (a property read on null)\<close>

subsection \<open>Firestore writes\<close>

text \<open>
  \<^verbatim>\<open>updateDoc(ref, fields)\<close> overwrites the given fields of an existing document and
  throws when the document does not exist or the store refuses the write
  (\<open>storeOk = False\<close>). \<open>None\<close> is the thrown error.
\<close>

definition updateDoc :: "bool \<Rightarrow> docId \<Rightarrow> (item \<Rightarrow> item) \<Rightarrow> db \<Rightarrow> db option" where
  "updateDoc storeOk ref upd d =
     (case wishlistItems d ref of
        None \<Rightarrow> None
      | Some it \<Rightarrow>
          if storeOk then Some (d\<lparr>wishlistItems := (wishlistItems d)(ref \<mapsto> upd it)\<rparr>)
          else None)"

text \<open>
  Inside \<^verbatim>\<open>runTransaction\<close> the callback reads through the transaction and queues
  writes; the queued writes are applied together when the callback returns and the
  commit succeeds, and none is applied when the callback throws or the commit fails.
  The callback is modelled as a function from the database it reads to the list of
  writes it queued, or \<open>None\<close> when it threw. The retries the library makes when another
  writer got in between are not visible here: the callback runs against the state the
  commit is checked against.
\<close>

datatype txwrite =
    TxUpdate docId "item \<Rightarrow> item"       \<comment> \<open>\<^verbatim>\<open>transaction.update(ref, fields)\<close>\<close>
  | TxSetContribution docId contribution   \<comment> \<open>\<^verbatim>\<open>transaction.set\<close> of a new document of the subcollection\<close>

fun applyWrite :: "db \<Rightarrow> txwrite \<Rightarrow> db" where
  "applyWrite d (TxUpdate ref upd) =
     (case wishlistItems d ref of
        None \<Rightarrow> d
      | Some it \<Rightarrow> d\<lparr>wishlistItems := (wishlistItems d)(ref \<mapsto> upd it)\<rparr>)"
| "applyWrite d (TxSetContribution ref c) =
     d\<lparr>contributions := (contributions d)(ref := contributions d ref @ [c])\<rparr>"

definition runTransaction :: "bool \<Rightarrow> (db \<Rightarrow> txwrite list option) \<Rightarrow> db \<Rightarrow> db option" where
  "runTransaction storeOk updateFunction d =
     (case updateFunction d of
        None \<Rightarrow> None
      | Some ws \<Rightarrow> if storeOk then Some (foldl applyWrite d ws) else None)"

subsection \<open>\<^verbatim>\<open>handleContribute\<close> (lines 329-393)\<close>

text \<open>\<^verbatim>\<open>user.displayName || contributorName || 'Anonymous'\<close> (line 334).\<close>

definition nameToUse :: "user \<Rightarrow> string \<Rightarrow> string" where
  "nameToUse u contributorNameInput =
     (case displayName u of
        Some n \<Rightarrow> if n \<noteq> [] then n
                  else if contributorNameInput \<noteq> [] then contributorNameInput else ''Anonymous''
      | None \<Rightarrow> if contributorNameInput \<noteq> [] then contributorNameInput else ''Anonymous'')"

text \<open>The callback of the transaction (lines 362-385).\<close>

definition contributeTx :: "docId \<Rightarrow> user \<Rightarrow> number \<Rightarrow> nat \<Rightarrow> string \<Rightarrow> db \<Rightarrow> txwrite list option" where
  "contributeTx itemRef u amt now name d =
     (case wishlistItems d itemRef of
        None \<Rightarrow> None
      | Some itemDoc \<Rightarrow>
          let currentContributions' = orZero (currentContributions itemDoc);
              newContributions = num_add currentContributions' amt;
              newStatus = (if num_ge newContributions (expectedCost itemDoc) then Completed else SignedUp)
          in Some [TxUpdate itemRef (\<lambda>it. it\<lparr>currentContributions := newContributions, status := newStatus\<rparr>),
                   TxSetContribution itemRef
                     \<lparr>userId = uid u, amount = amt, timestamp = now, c_contributorName = name\<rparr>])"

text \<open>
  The handler. Its inputs are the component state it reads (\<open>user\<close>,
  \<open>currentEditingItem\<close>, \<open>contributionAmount\<close> after \<^verbatim>\<open>parseFloat\<close>, the typed
  \<open>contributorName\<close>), the clock \<^verbatim>\<open>Date.now()\<close>, and whether the store accepts the write.
  The contribution type and the partial flag are read from the copy in
  \<open>currentEditingItem\<close>, the amounts from the document inside the transaction.
\<close>

definition handleContribute ::
  "user option \<Rightarrow> listedItem option \<Rightarrow> number \<Rightarrow> string \<Rightarrow> nat \<Rightarrow> bool \<Rightarrow> db \<Rightarrow> db \<times> outcome" where
  "handleContribute usr currentEditingItem contributionAmount contributorNameInput now storeOk d =
     (case currentEditingItem of
        None \<Rightarrow> (d, Silent)
      | Some cur \<Rightarrow>
         (case usr of
            None \<Rightarrow> (d, Threw)
          | Some u \<Rightarrow>
             let name = nameToUse u contributorNameInput;
                 itemRef = itemId cur
             in if name = [] then (d, Alert ''Please enter your name to contribute.'')
                else if contributionType (docData cur) = Item then
                  (case updateDoc storeOk itemRef
                          (\<lambda>it. it\<lparr>status := SignedUp, contributorId := Some (uid u),
                                    contributorName := Some name\<rparr>) d of
                     Some d' \<Rightarrow> (d', Alert ''You have successfully signed up for this item!'')
                   | None \<Rightarrow> (d, Alert ''An error occurred. Please try again.''))
                else if contributionType (docData cur) = Cash \<and> isPartialAllowed (docData cur) then
                  (let amt = contributionAmount
                   in if isNaN amt \<or> num_le amt (Num 0)
                      then (d, Alert ''Please enter a valid contribution amount.'')
                      else (case runTransaction storeOk (contributeTx itemRef u amt now name) d of
                              Some d' \<Rightarrow> (d', Alert ''Thank you for your contribution!'')
                            | None \<Rightarrow>
                                (d, Alert ''An error occurred during your contribution. Please try again.'')))
                else (d, Silent)))"

text \<open>
  The details form shows its submit button only while the copy in
  \<open>currentEditingItem\<close> has the status \<^verbatim>\<open>'Pending'\<close> (line 634).
\<close>

definition submitShown :: "listedItem \<Rightarrow> bool" where
  "submitShown cur = (status (docData cur) = Pending)"

subsection \<open>\<^verbatim>\<open>handleSubmitItem\<close> (lines 278-327)\<close>

text \<open>The fields of the add/edit form; \<open>itemCost\<close> is the value after \<^verbatim>\<open>parseFloat\<close>.\<close>

record itemForm =
  f_itemName :: string
  itemCategory :: string
  itemCost :: number
  f_contributionType :: ctype
  itemDate :: string
  partialContributionAllowed :: bool

definition isAdmin :: "user option \<Rightarrow> bool" where
  "isAdmin usr = (case usr of None \<Rightarrow> False | Some u \<Rightarrow> uid u = ''your-admin-uid'')"

text \<open>Writing \<^verbatim>\<open>itemData\<close> (lines 285-292) and \<^verbatim>\<open>updatedAt\<close> over a document.\<close>

definition applyItemData :: "itemForm \<Rightarrow> nat \<Rightarrow> item \<Rightarrow> item" where
  "applyItemData f now it =
     it\<lparr>itemName := f_itemName f,
        category := itemCategory f,
        expectedCost := itemCost f,
        contributionType := f_contributionType f,
        dateNeeded := itemDate f,
        isPartialAllowed := (f_contributionType f = Cash \<and> partialContributionAllowed f),
        updatedAt := Some now\<rparr>"

text \<open>The document \<^verbatim>\<open>addDoc\<close> writes (lines 311-318).\<close>

definition newItem :: "itemForm \<Rightarrow> nat \<Rightarrow> user \<Rightarrow> item" where
  "newItem f now u =
     \<lparr>itemName = f_itemName f,
      category = itemCategory f,
      expectedCost = itemCost f,
      contributionType = f_contributionType f,
      dateNeeded = itemDate f,
      isPartialAllowed = (f_contributionType f = Cash \<and> partialContributionAllowed f),
      status = Pending,
      currentContributions = Num 0,
      createdAt = now,
      createdBy = Some (uid u),
      creatorName = Some (case displayName u of
                            Some n \<Rightarrow> if n \<noteq> [] then n else ''Anonymous''
                          | None \<Rightarrow> ''Anonymous''),
      updatedAt = None,
      contributorId = None,
      contributorName = None\<rparr>"

text \<open>
  The handler. \<open>newId\<close> is the id \<^verbatim>\<open>addDoc\<close> generates for a new document. In edit mode
  with no \<open>currentEditingItem\<close> the read of its id throws inside the \<^verbatim>\<open>try\<close>.
\<close>

definition handleSubmitItem ::
  "user option \<Rightarrow> itemForm \<Rightarrow> bool \<Rightarrow> listedItem option \<Rightarrow> docId \<Rightarrow> nat \<Rightarrow> bool \<Rightarrow> db \<Rightarrow> db \<times> outcome" where
  "handleSubmitItem usr f isEditing currentEditingItem newId now storeOk d =
     (case usr of
        None \<Rightarrow> (d, Alert ''You do not have permission to add or edit an item.'')
      | Some u \<Rightarrow>
          if \<not> isAdmin usr then (d, Alert ''You do not have permission to add or edit an item.'')
          else if isEditing then
            (case currentEditingItem of
               None \<Rightarrow> (d, Alert ''Failed to update item. Please try again.'')
             | Some cur \<Rightarrow>
                (case updateDoc storeOk (itemId cur) (applyItemData f now) d of
                   Some d' \<Rightarrow> (d', Alert ''Item updated successfully!'')
                 | None \<Rightarrow> (d, Alert ''Failed to update item. Please try again.'')))
          else if storeOk then
            (d\<lparr>wishlistItems := (wishlistItems d)(newId \<mapsto> newItem f now u)\<rparr>,
             Alert ''Item added successfully!'')
          else (d, Alert ''Failed to add item. Please try again.''))"

subsection \<open>The spec's vocabulary\<close>

text \<open>
  The spec compares amounts within a tolerance and suggests \<open>1e-6\<close> of a currency unit
  (section 4.3). The program has no tolerance; the constant is used only to state the
  spec's bounds.
\<close>

definition epsilon :: rat where
  "epsilon = 1 / 1000000"

text \<open>
  The spec's modes are the program's contribution types: Exclusive is \<^verbatim>\<open>'item'\<close>,
  Cumulative is \<^verbatim>\<open>'cash'\<close>; its statuses Pending, Committed, Fulfilled are \<^verbatim>\<open>'Pending'\<close>,
  \<^verbatim>\<open>'Signed Up'\<close>, \<^verbatim>\<open>'Completed'\<close>; \<open>targetCost\<close> is \<^verbatim>\<open>expectedCost\<close> and
  \<open>totalContributed\<close> is \<^verbatim>\<open>currentContributions\<close>. The program has no field
  \<open>claimed\<close>: signing up for an item writes \<^verbatim>\<open>contributorId\<close> and
  \<^verbatim>\<open>contributorName\<close> into the item document (lines 344-348), so an item is claimed
  when it carries a \<^verbatim>\<open>contributorId\<close>.

  The handlers report through alerts. The alert
  \<^verbatim>\<open>'Please enter a valid contribution amount.'\<close> is the spec's error InvalidAmount; the
  two alerts of success are \<^verbatim>\<open>'Thank you for your contribution!'\<close> (cash) and
  \<^verbatim>\<open>'You have successfully signed up for this item!'\<close> (item). A missing document and a
  refused write both end in a general alert of failure; the program has no alert for
  an item that is fulfilled already.
\<close>

definition claimed :: "item \<Rightarrow> bool" where
  "claimed it = (contributorId it \<noteq> None)"

text \<open>
  The spec's rule for Fulfilled, in its words (section 3, invariant 3):
  (mode = Exclusive and claimed) or (mode = Cumulative and
  totalContributed \<open>\<ge>\<close> targetCost \<open>-\<close> epsilon).
\<close>

definition spec_Fulfilled :: "item \<Rightarrow> bool" where
  "spec_Fulfilled it =
     (contributionType it = Item \<and> claimed it
      \<or> contributionType it = Cash
          \<and> num_ge (currentContributions it) (num_add (expectedCost it) (Num (- epsilon))))"

subsection \<open>Example data\<close>

text \<open>
  The three \<^verbatim>\<open>sampleItems\<close> of lines 116-150 (\<^verbatim>\<open>createdAt\<close> taken as 0), stored under
  the ids \<open>alter\<close>, \<open>bema\<close> and \<open>flag\<close>, with empty contribution logs.
\<close>

definition alterTable :: item where
  "alterTable =
     \<lparr>itemName = ''Alter Table'', category = ''Furniture'', expectedCost = Num 1500,
      contributionType = Item, dateNeeded = ''2025-12-25'', isPartialAllowed = False,
      status = Pending, currentContributions = Num 0, createdAt = 0,
      createdBy = None, creatorName = None, updatedAt = None,
      contributorId = None, contributorName = None\<rparr>"

definition bemaTable :: item where
  "bemaTable =
     \<lparr>itemName = ''Bema Table'', category = ''Furniture'', expectedCost = Num 800,
      contributionType = Cash, dateNeeded = ''2026-01-15'', isPartialAllowed = True,
      status = Pending, currentContributions = Num 250, createdAt = 0,
      createdBy = None, creatorName = None, updatedAt = None,
      contributorId = None, contributorName = None\<rparr>"

definition newFlagPole :: item where
  "newFlagPole =
     \<lparr>itemName = ''New Flag Pole'', category = ''Exterior'', expectedCost = Num 5000,
      contributionType = Cash, dateNeeded = ''2025-11-01'', isPartialAllowed = True,
      status = Pending, currentContributions = Num 0, createdAt = 0,
      createdBy = None, creatorName = None, updatedAt = None,
      contributorId = None, contributorName = None\<rparr>"

definition sampleItems :: "item list" where
  "sampleItems = [alterTable, bemaTable, newFlagPole]"

definition sampleStore :: db where
  "sampleStore =
     \<lparr>wishlistItems = [''alter'' \<mapsto> alterTable, ''bema'' \<mapsto> bemaTable, ''flag'' \<mapsto> newFlagPole],
      contributions = (\<lambda>_. [])\<rparr>"

text \<open>The store with one document replaced.\<close>

definition storeWith :: "docId \<Rightarrow> item \<Rightarrow> db" where
  "storeWith ref it = sampleStore\<lparr>wishlistItems := (wishlistItems sampleStore)(ref \<mapsto> it)\<rparr>"

text \<open>Two visitors and the administrator (line 113).\<close>

definition ann :: user where
  "ann = \<lparr>uid = ''ann'', displayName = Some ''Ann''\<rparr>"

definition bob :: user where
  "bob = \<lparr>uid = ''bob'', displayName = None\<rparr>"

definition admin :: user where
  "admin = \<lparr>uid = ''your-admin-uid'', displayName = Some ''Admin''\<rparr>"

text \<open>The copies of the sample items a visitor has open.\<close>

definition alterListed :: listedItem where
  "alterListed = \<lparr>itemId = ''alter'', docData = alterTable\<rparr>"

definition bemaListed :: listedItem where
  "bemaListed = \<lparr>itemId = ''bema'', docData = bemaTable\<rparr>"

text \<open>
  Variants of the Bema Table used as inputs: a cash item that takes no partial
  contributions and has received nothing; the item with its target reached and the
  status \<^verbatim>\<open>'Completed'\<close>; an item with target 1000 of which 800 are paid; and the
  Alter Table after \<open>bob\<close> signed up for it.
\<close>

definition bemaExact :: item where
  "bemaExact = bemaTable\<lparr>isPartialAllowed := False, currentContributions := Num 0\<rparr>"

definition bemaCompleted :: item where
  "bemaCompleted = bemaTable\<lparr>currentContributions := Num 800, status := Completed\<rparr>"

definition bemaPartlyPaid :: item where
  "bemaPartlyPaid =
     bemaTable\<lparr>expectedCost := Num 1000, currentContributions := Num 800, status := SignedUp\<rparr>"

definition alterClaimed :: item where
  "alterClaimed =
     alterTable\<lparr>status := SignedUp, contributorId := Some ''bob'', contributorName := Some ''Bob''\<rparr>"

text \<open>The edit form that lowers the target of the Bema Table to 700 and changes nothing else.\<close>

definition lowerTo700 :: itemForm where
  "lowerTo700 =
     \<lparr>f_itemName = ''Bema Table'', itemCategory = ''Furniture'', itemCost = Num 700,
      f_contributionType = Cash, itemDate = ''2026-01-15'', partialContributionAllowed = True\<rparr>"

text \<open>
  An edit form that differs from the partly paid Bema Table in every field it holds:
  another name, category and date, the target lowered to 700, and the type changed to
  \<^verbatim>\<open>'item'\<close> with the box for partial contributions still ticked.
\<close>

definition reviseAll :: itemForm where
  "reviseAll =
     \<lparr>f_itemName = ''Lectern'', itemCategory = ''Sanctuary'', itemCost = Num 700,
      f_contributionType = Item, itemDate = ''2026-03-01'', partialContributionAllowed = True\<rparr>"



section \<open>Properties\<close>

subsection \<open>Auxiliary facts\<close>

lemma nameToUse_nonempty: "nameToUse u nm \<noteq> []"
  by (simp add: nameToUse_def split: option.splits)

text \<open>Rules that let the simplifier compute a sum of two given doubles.\<close>

lemma bitLength_zero: "bitLength 0 = 0"
  by (simp add: bitLength.simps)

lemma bitLength_pos: "0 < n \<Longrightarrow> bitLength n = 1 + bitLength (n div 2)"
  by (subst bitLength.simps) simp

lemma floor_rat_numeral: "\<lfloor>(numeral a / numeral b :: rat)\<rfloor> = numeral a div numeral b"
  by (metis floor_divide_of_int_eq of_int_numeral)

lemma ceiling_rat_numeral: "\<lceil>(numeral a / numeral b :: rat)\<rceil> = - (- numeral a div numeral b)"
proof -
  have "\<lfloor>(of_int (- numeral a) / of_int (numeral b) :: rat)\<rfloor> = - numeral a div numeral b"
    by (rule floor_divide_of_int_eq)
  then show ?thesis
    by (simp add: ceiling_def)
qed

lemmas double_eval =
  roundDouble_def ilog2_def pow2_def roundHalfEven_def Let_def
  bitLength_zero bitLength_pos floor_rat_numeral ceiling_rat_numeral


text \<open>A sum that reaches \<open>2^1024\<close> is infinite.\<close>

lemma bitLength_power2: "bitLength (2 ^ n) = int n + 1"
proof (induction n)
  case 0
  show ?case
    by (simp add: bitLength_pos bitLength_zero)
next
  case (Suc n)
  have "bitLength (2 ^ Suc n) = 1 + bitLength (2 ^ Suc n div 2)"
    by (rule bitLength_pos) simp
  with Suc show ?case
    by simp
qed

lemma ilog2_big: "ilog2 (2 ^ 1024) = 1024"
proof -
  have "\<lfloor>(2::rat) ^ 1024\<rfloor> = 2 ^ 1024"
    by (metis floor_of_int of_int_numeral of_int_power)
  moreover have "(1::rat) \<le> 2 ^ 1024"
    by (rule one_le_power) simp
  ultimately show ?thesis
    unfolding ilog2_def using bitLength_power2 [of 1024] by simp
qed

lemma num_add_overflows: "num_add (Num (2 ^ 1023)) (Num (2 ^ 1023)) = Infinity"
proof -
  have s: "(2::rat) ^ 1023 + 2 ^ 1023 = 2 ^ 1024"
    by simp
  have e: "max (ilog2 (2 ^ 1024) - 52) (- 1074) = 972"
    unfolding ilog2_big by simp
  have p: "pow2 972 = 2 ^ 972"
    by (simp add: pow2_def)
  have q: "(2::rat) ^ 1024 / 2 ^ 972 = 2 ^ 52"
    by simp
  have r: "roundHalfEven (2 ^ 52) = 2 ^ 52"
    by (simp add: roundHalfEven_def)
  have m: "rat_of_int (2 ^ 52) * 2 ^ 972 = 2 ^ 1024"
    by simp
  have z: "(2::rat) ^ 1024 \<noteq> 0" "\<bar>(2::rat) ^ 1024\<bar> = 2 ^ 1024" "(0::rat) < 2 ^ 1024"
    by simp_all
  show ?thesis
    unfolding num_add.simps s roundDouble_def Let_def z e p q r m
    using z by simp
qed

text \<open>
  What the cash branch writes when the document exists and the store accepts the
  transaction: the new total and status into the item, and one record into its log.
\<close>

lemma handleContribute_cash_commit:
  assumes "contributionType (docData cur) = Cash" and "isPartialAllowed (docData cur)"
    and "\<not> isNaN amt" and "\<not> num_le amt (Num 0)"
    and "wishlistItems d (itemId cur) = Some it"
  shows "handleContribute (Some u) (Some cur) amt nm now True d =
    (d\<lparr>wishlistItems := (wishlistItems d)(itemId cur \<mapsto>
          it\<lparr>currentContributions := num_add (orZero (currentContributions it)) amt,
             status := (if num_ge (num_add (orZero (currentContributions it)) amt) (expectedCost it)
                        then Completed else SignedUp)\<rparr>),
       contributions := (contributions d)(itemId cur := contributions d (itemId cur) @
          [\<lparr>userId = uid u, amount = amt, timestamp = now, c_contributorName = nameToUse u nm\<rparr>])\<rparr>,
     Alert ''Thank you for your contribution!'')"
  using assms
  by (simp add: handleContribute_def Let_def nameToUse_nonempty runTransaction_def contributeTx_def)

text \<open>What the item branch writes when the document exists and the store accepts the update.\<close>

lemma handleContribute_item_commit:
  assumes "contributionType (docData cur) = Item"
    and "wishlistItems d (itemId cur) = Some it"
  shows "handleContribute (Some u) (Some cur) amt nm now True d =
    (d\<lparr>wishlistItems := (wishlistItems d)(itemId cur \<mapsto>
          it\<lparr>status := SignedUp, contributorId := Some (uid u),
             contributorName := Some (nameToUse u nm)\<rparr>)\<rparr>,
     Alert ''You have successfully signed up for this item!'')"
  using assms
  by (simp add: handleContribute_def Let_def nameToUse_nonempty updateDoc_def)

lemmas example_defs =
  sampleStore_def storeWith_def alterTable_def bemaTable_def newFlagPole_def
  ann_def bob_def admin_def alterListed_def bemaListed_def
  bemaExact_def bemaCompleted_def bemaPartlyPaid_def alterClaimed_def lowerTo700_def
  reviseAll_def

lemmas run_defs =
  handleContribute_def Let_def nameToUse_def runTransaction_def contributeTx_def updateDoc_def
  isNaN_def orZero_def num_ge_def

subsection \<open>The total after a contribution\<close>




subsection \<open>Contributions that exceed the target\<close>




text \<open>
  The second half of the spec's example holds: a contribution of 550 succeeds, brings
  the total to 800 and the status to \<^verbatim>\<open>'Completed'\<close>.
\<close>

lemma exact_remainder_completes:
  "handleContribute (Some ann) (Some bemaListed) (Num 550) [] 7 True sampleStore =
      (sampleStore\<lparr>wishlistItems := (wishlistItems sampleStore)(''bema'' \<mapsto>
            bemaTable\<lparr>currentContributions := Num 800, status := Completed\<rparr>),
         contributions := (contributions sampleStore)(''bema'' :=
            [\<lparr>userId = ''ann'', amount = Num 550, timestamp = 7, c_contributorName = ''Ann''\<rparr>])\<rparr>,
       Alert ''Thank you for your contribution!'')"
  by (simp add: run_defs example_defs double_eval)

subsection \<open>The status a contribution writes\<close>

text \<open>
  C3, as amended. A status is computed only by a contribution, and without a tolerance.
  When the document exists and the store accepts the write: signing up for an item of
  type \<^verbatim>\<open>'item'\<close> writes \<^verbatim>\<open>'Signed Up'\<close>, never \<^verbatim>\<open>'Completed'\<close>; an accepted contribution to
  a cash item that takes partial contributions writes \<^verbatim>\<open>'Completed'\<close> when the new total
  is at least \<^verbatim>\<open>expectedCost\<close> (compared exactly) and \<^verbatim>\<open>'Signed Up'\<close> otherwise.
\<close>

theorem contribute_status_rule:
  assumes "wishlistItems d (itemId cur) = Some it"
    and "contributionType (docData cur) = Item
         \<or> isPartialAllowed (docData cur) \<and> \<not> isNaN amt \<and> \<not> num_le amt (Num 0)"
  shows "\<exists>it'. wishlistItems (fst (handleContribute (Some u) (Some cur) amt nm now True d))
                 (itemId cur) = Some it'
      \<and> status it' =
          (if contributionType (docData cur) = Item then SignedUp
           else if num_ge (currentContributions it') (expectedCost it') then Completed
           else SignedUp)"
proof (cases "contributionType (docData cur)")
  case Item
  then show ?thesis
    by (simp add: handleContribute_item_commit [OF Item assms(1)])
next
  case Cash
  with assms(2) have ok: "isPartialAllowed (docData cur)" "\<not> isNaN amt" "\<not> num_le amt (Num 0)"
    by simp_all
  show ?thesis
    using Cash by (simp add: handleContribute_cash_commit [OF Cash ok assms(1)])
qed

text \<open>
  The theorem at a sign-up for the Alter Table and at a contribution of 550 to the Bema
  Table; a contribution of 549 leaves the Bema Table signed up.
\<close>

theorem contribute_status_rule_witness:
  "wishlistItems sampleStore (itemId alterListed) = Some alterTable
   \<and> contributionType (docData alterListed) = Item
   \<and> status (the (wishlistItems
        (fst (handleContribute (Some ann) (Some alterListed) NaN [] 7 True sampleStore))
        ''alter'')) = SignedUp
   \<and> wishlistItems sampleStore (itemId bemaListed) = Some bemaTable
   \<and> isPartialAllowed (docData bemaListed) \<and> \<not> isNaN (Num 550) \<and> \<not> num_le (Num 550) (Num 0)
   \<and> status (the (wishlistItems
        (fst (handleContribute (Some ann) (Some bemaListed) (Num 550) [] 7 True sampleStore))
        ''bema'')) = Completed
   \<and> status (the (wishlistItems
        (fst (handleContribute (Some ann) (Some bemaListed) (Num 549) [] 7 True sampleStore))
        ''bema'')) = SignedUp"
proof -
  have a: "wishlistItems sampleStore (itemId alterListed) = Some alterTable"
    and a': "contributionType (docData alterListed) = Item"
    and b: "wishlistItems sampleStore (itemId bemaListed) = Some bemaTable"
    and b': "isPartialAllowed (docData bemaListed)" "\<not> isNaN (Num 550)"
      "\<not> num_le (Num 550) (Num 0)"
    by (simp_all add: example_defs isNaN_def)
  have c: "contributionType (docData bemaListed) = Cash" "itemId alterListed = ''alter''"
    "itemId bemaListed = ''bema''"
    by (simp_all add: example_defs)
  from contribute_status_rule [OF a, of NaN ann "[]" 7] a'
  have 1: "status (the (wishlistItems
        (fst (handleContribute (Some ann) (Some alterListed) NaN [] 7 True sampleStore))
        ''alter'')) = SignedUp"
    using c by auto
  from contribute_status_rule [OF b, of "Num 550" ann "[]" 7] b' c
  obtain it' where 2:
    "wishlistItems
       (fst (handleContribute (Some ann) (Some bemaListed) (Num 550) [] 7 True sampleStore))
       ''bema'' = Some it'"
    "status it' =
       (if num_ge (currentContributions it') (expectedCost it') then Completed else SignedUp)"
    by auto
  have "currentContributions it' = Num 800 \<and> expectedCost it' = Num 800"
    using 2(1) by (auto simp add: run_defs example_defs double_eval)
  with 2 have 3: "status (the (wishlistItems
        (fst (handleContribute (Some ann) (Some bemaListed) (Num 550) [] 7 True sampleStore))
        ''bema'')) = Completed"
    by (simp add: num_ge_def)
  have 4: "status (the (wishlistItems
        (fst (handleContribute (Some ann) (Some bemaListed) (Num 549) [] 7 True sampleStore))
        ''bema'')) = SignedUp"
    by (simp add: run_defs example_defs double_eval)
  show ?thesis
    using a a' b b' 1 3 4 by simp
qed

text \<open>
  C3 as the spec states it fails in both directions of its rule for Fulfilled: after
  \<open>ann\<close> signed up for the Alter Table the item is of type \<^verbatim>\<open>'item'\<close> and claimed, and
  after a contribution of 549.9999995 the Bema Table's total is within \<open>epsilon\<close> of its
  target; in neither case is the status \<^verbatim>\<open>'Completed'\<close>.
\<close>

theorem claimed_item_not_completed:
  "spec_Fulfilled (the (wishlistItems
      (fst (handleContribute (Some ann) (Some alterListed) NaN [] 7 True sampleStore)) ''alter''))
   \<and> status (the (wishlistItems
      (fst (handleContribute (Some ann) (Some alterListed) NaN [] 7 True sampleStore)) ''alter''))
     \<noteq> Completed
   \<and> spec_Fulfilled (the (wishlistItems
      (fst (handleContribute (Some ann) (Some bemaListed) (Num (5499999995 / 10000000)) [] 7 True
             sampleStore)) ''bema''))
   \<and> status (the (wishlistItems
      (fst (handleContribute (Some ann) (Some bemaListed) (Num (5499999995 / 10000000)) [] 7 True
             sampleStore)) ''bema''))
     \<noteq> Completed"
  by (simp add: run_defs example_defs spec_Fulfilled_def claimed_def epsilon_def double_eval)

subsection \<open>Signing up for an item that is taken\<close>

text \<open>
  C4. The form offers the sign-up only while the viewed copy of the item is pending,
  but the handler does not look at the stored document before it writes. With the
  Alter Table claimed by \<open>bob\<close> in the store and \<open>ann\<close>'s view still showing it as
  pending, \<open>ann\<close>'s sign-up is reported as a success and her id replaces his, where the
  spec has the call rejected.
\<close>

theorem second_signup_applied:
  "claimed (the (wishlistItems (storeWith ''alter'' alterClaimed) ''alter''))
   \<and> contributorId (the (wishlistItems (storeWith ''alter'' alterClaimed) ''alter'')) = Some ''bob''
   \<and> submitShown alterListed
   \<and> snd (handleContribute (Some ann) (Some alterListed) NaN [] 7 True
            (storeWith ''alter'' alterClaimed))
       = Alert ''You have successfully signed up for this item!''
   \<and> contributorId (the (wishlistItems
        (fst (handleContribute (Some ann) (Some alterListed) NaN [] 7 True
               (storeWith ''alter'' alterClaimed))) ''alter'')) = Some ''ann''"
  by (simp add: run_defs example_defs claimed_def submitShown_def)

subsection \<open>Contributing to a completed item\<close>

text \<open>
  C5. The form offers the contribution only while the viewed copy of the item is
  pending, and the transaction reads the stored document without looking at its status.
  With the stored Bema Table completed at 800 of 800 and \<open>ann\<close>'s view still showing it
  as pending, her contribution of 10 is thanked for, raises the total to 810 and adds a
  record, where the spec has the call fail and change nothing.
\<close>

theorem completed_item_contribution_applied:
  "status (the (wishlistItems (storeWith ''bema'' bemaCompleted) ''bema'')) = Completed
   \<and> currentContributions (the (wishlistItems (storeWith ''bema'' bemaCompleted) ''bema'')) = Num 800
   \<and> submitShown bemaListed
   \<and> snd (handleContribute (Some ann) (Some bemaListed) (Num 10) [] 7 True
            (storeWith ''bema'' bemaCompleted))
       = Alert ''Thank you for your contribution!''
   \<and> currentContributions (the (wishlistItems
        (fst (handleContribute (Some ann) (Some bemaListed) (Num 10) [] 7 True
               (storeWith ''bema'' bemaCompleted))) ''bema'')) = Num 810
   \<and> contributions
        (fst (handleContribute (Some ann) (Some bemaListed) (Num 10) [] 7 True
               (storeWith ''bema'' bemaCompleted))) ''bema''
       = [\<lparr>userId = ''ann'', amount = Num 10, timestamp = 7, c_contributorName = ''Ann''\<rparr>]"
  by (simp add: run_defs example_defs submitShown_def double_eval)

subsection \<open>Cash items without partial contributions\<close>

text \<open>
  For a cash item that takes no partial contributions the handler has no branch:
  whatever the amount, it leaves the store as it was and shows no message.
\<close>

lemma exact_only_item_ignored:
  assumes "contributionType (docData cur) = Cash" and "\<not> isPartialAllowed (docData cur)"
  shows "handleContribute (Some u) (Some cur) amt nm now storeOk d = (d, Silent)"
  using assms by (simp add: handleContribute_def Let_def nameToUse_nonempty)

text \<open>
  C6. For a pending cash item that takes no partial contributions the form shows the
  button \<^verbatim>\<open>Contribute\<close> and no amount field, so the amount the handler would read is
  \<^verbatim>\<open>parseFloat('')\<close>, NaN. Pressing the button on the Bema Table with 800 expected and
  nothing paid leaves the item pending with nothing paid and an empty log, and shows no
  message, where the spec has the contribution of the remaining amount succeed and
  complete the item, and any other attempt fail with the invalid-amount error.
\<close>

theorem contribute_button_without_effect:
  "contributionType bemaExact = Cash \<and> \<not> isPartialAllowed bemaExact
   \<and> status bemaExact = Pending
   \<and> submitShown \<lparr>itemId = ''bema'', docData = bemaExact\<rparr>
   \<and> handleContribute (Some ann) (Some \<lparr>itemId = ''bema'', docData = bemaExact\<rparr>) NaN [] 7 True
        (storeWith ''bema'' bemaExact) = (storeWith ''bema'' bemaExact, Silent)
   \<and> status (the (wishlistItems (storeWith ''bema'' bemaExact) ''bema'')) = Pending
   \<and> currentContributions (the (wishlistItems (storeWith ''bema'' bemaExact) ''bema'')) = Num 0
   \<and> contributions (storeWith ''bema'' bemaExact) ''bema'' = []"
  by (simp add: run_defs example_defs submitShown_def)

subsection \<open>Editing an item\<close>

text \<open>
  C7, as amended. An edit does not derive a status. When an administrator saves the
  edit form for an existing item and the store accepts the write, the document takes
  the form's \<^verbatim>\<open>itemName\<close>, \<^verbatim>\<open>category\<close>, \<^verbatim>\<open>expectedCost\<close>, \<^verbatim>\<open>contributionType\<close> and
  \<^verbatim>\<open>dateNeeded\<close>, \<^verbatim>\<open>isPartialAllowed\<close> becomes true exactly for a cash item with the box
  ticked, and \<^verbatim>\<open>updatedAt\<close> is set. Every other field stays as it was, among them
  \<^verbatim>\<open>status\<close>, \<^verbatim>\<open>currentContributions\<close>, \<^verbatim>\<open>contributorId\<close> and \<^verbatim>\<open>contributorName\<close>, also
  when the new target is at or below the total; no other document and no log changes.
\<close>

theorem edit_keeps_status:
  assumes "isAdmin usr" and "wishlistItems d (itemId cur) = Some it"
  shows "\<exists>it'. handleSubmitItem usr f True (Some cur) newId now True d =
               (d\<lparr>wishlistItems := (wishlistItems d)(itemId cur \<mapsto> it')\<rparr>,
                Alert ''Item updated successfully!'')
      \<and> it' = it\<lparr>itemName := f_itemName f,
                  category := itemCategory f,
                  expectedCost := itemCost f,
                  contributionType := f_contributionType f,
                  dateNeeded := itemDate f,
                  isPartialAllowed := (f_contributionType f = Cash \<and> partialContributionAllowed f),
                  updatedAt := Some now\<rparr>
      \<and> status it' = status it
      \<and> currentContributions it' = currentContributions it
      \<and> contributorId it' = contributorId it
      \<and> contributorName it' = contributorName it"
  using assms
  by (cases usr) (simp_all add: handleSubmitItem_def isAdmin_def updateDoc_def applyItemData_def)

text \<open>
  The theorem at an item with 1000 expected, 800 paid and the status \<^verbatim>\<open>'Signed Up'\<close>, and
  a form that changes every field it holds and lowers the target to 700.
\<close>

theorem edit_keeps_status_witness:
  "isAdmin (Some admin)
   \<and> wishlistItems (storeWith ''bema'' bemaPartlyPaid)
        (itemId \<lparr>itemId = ''bema'', docData = bemaPartlyPaid\<rparr>) = Some bemaPartlyPaid
   \<and> handleSubmitItem (Some admin) reviseAll True
        (Some \<lparr>itemId = ''bema'', docData = bemaPartlyPaid\<rparr>) ''new'' 9 True
        (storeWith ''bema'' bemaPartlyPaid) =
      ((storeWith ''bema'' bemaPartlyPaid)\<lparr>wishlistItems :=
          (wishlistItems (storeWith ''bema'' bemaPartlyPaid))(''bema'' \<mapsto>
            \<lparr>itemName = ''Lectern'', category = ''Sanctuary'', expectedCost = Num 700,
             contributionType = Item, dateNeeded = ''2026-03-01'', isPartialAllowed = False,
             status = SignedUp, currentContributions = Num 800, createdAt = 0,
             createdBy = None, creatorName = None, updatedAt = Some 9,
             contributorId = None, contributorName = None\<rparr>)\<rparr>,
       Alert ''Item updated successfully!'')"
proof -
  have h: "isAdmin (Some admin)"
    "wishlistItems (storeWith ''bema'' bemaPartlyPaid)
        (itemId \<lparr>itemId = ''bema'', docData = bemaPartlyPaid\<rparr>) = Some bemaPartlyPaid"
    by (simp_all add: example_defs isAdmin_def)
  from edit_keeps_status [OF h, of reviseAll "''new''" 9] h show ?thesis
    by (auto simp: example_defs)
qed

text \<open>
  C7 as the spec states it fails: after the target is lowered to 700 with 800 paid, the
  status is still \<^verbatim>\<open>'Signed Up'\<close>, not \<^verbatim>\<open>'Completed'\<close>.
\<close>

theorem lowered_target_not_fulfilled:
  "status (the (wishlistItems (storeWith ''bema'' bemaPartlyPaid) ''bema'')) = SignedUp
   \<and> snd (handleSubmitItem (Some admin) lowerTo700 True
            (Some \<lparr>itemId = ''bema'', docData = bemaPartlyPaid\<rparr>) ''new'' 9 True
            (storeWith ''bema'' bemaPartlyPaid))
       = Alert ''Item updated successfully!''
   \<and> expectedCost (the (wishlistItems (fst (handleSubmitItem (Some admin) lowerTo700 True
        (Some \<lparr>itemId = ''bema'', docData = bemaPartlyPaid\<rparr>) ''new'' 9 True
        (storeWith ''bema'' bemaPartlyPaid))) ''bema'')) = Num 700
   \<and> currentContributions (the (wishlistItems (fst (handleSubmitItem (Some admin) lowerTo700 True
        (Some \<lparr>itemId = ''bema'', docData = bemaPartlyPaid\<rparr>) ''new'' 9 True
        (storeWith ''bema'' bemaPartlyPaid))) ''bema'')) = Num 800
   \<and> status (the (wishlistItems (fst (handleSubmitItem (Some admin) lowerTo700 True
        (Some \<lparr>itemId = ''bema'', docData = bemaPartlyPaid\<rparr>) ''new'' 9 True
        (storeWith ''bema'' bemaPartlyPaid))) ''bema'')) \<noteq> Completed"
  by (simp add: handleSubmitItem_def isAdmin_def updateDoc_def applyItemData_def example_defs)

subsection \<open>Failed contributions and the unit of writing\<close>

text \<open>
  Whatever the inputs, a run of the handler ends in one of three ways. Unless it
  reports one of its two successes, the store is exactly as before. When it thanks for
  a cash contribution, the item's new total and status and the one new record of its
  log have all been written (they are queued in one transaction). When it confirms a
  sign-up, the item document alone has been written.
\<close>

lemma contribute_all_or_nothing:
  assumes "handleContribute usr ce amt nm now storeOk d = (d', out)"
  shows "(out \<noteq> Alert ''Thank you for your contribution!''
          \<and> out \<noteq> Alert ''You have successfully signed up for this item!'' \<longrightarrow> d' = d)
      \<and> (out = Alert ''Thank you for your contribution!'' \<longrightarrow>
           (\<exists>cur u it. ce = Some cur \<and> usr = Some u \<and> wishlistItems d (itemId cur) = Some it
              \<and> d' = d\<lparr>wishlistItems := (wishlistItems d)(itemId cur \<mapsto>
                          it\<lparr>currentContributions := num_add (orZero (currentContributions it)) amt,
                             status := (if num_ge (num_add (orZero (currentContributions it)) amt)
                                             (expectedCost it)
                                        then Completed else SignedUp)\<rparr>),
                       contributions := (contributions d)(itemId cur :=
                          contributions d (itemId cur) @
                          [\<lparr>userId = uid u, amount = amt, timestamp = now,
                            c_contributorName = nameToUse u nm\<rparr>])\<rparr>))
      \<and> (out = Alert ''You have successfully signed up for this item!'' \<longrightarrow>
           (\<exists>cur u it. ce = Some cur \<and> usr = Some u \<and> wishlistItems d (itemId cur) = Some it
              \<and> d' = d\<lparr>wishlistItems := (wishlistItems d)(itemId cur \<mapsto>
                          it\<lparr>status := SignedUp, contributorId := Some (uid u),
                             contributorName := Some (nameToUse u nm)\<rparr>)\<rparr>))"
  using assms
  by (auto simp: handleContribute_def Let_def nameToUse_nonempty runTransaction_def
        contributeTx_def updateDoc_def split: option.splits if_splits)

text \<open>
  C8. The spec has the update of the claim and the append of its record committed as
  one unit. \<open>ann\<close>'s sign-up for the Alter Table commits the claim (the item is claimed
  afterwards) and appends nothing: the item's log is still empty, although the list of
  contributors has a line for a record of a sign-up (line 624) and the cash branch
  writes its record in the same transaction as the total.
\<close>

theorem signup_commits_without_record:
  "\<not> claimed (the (wishlistItems sampleStore ''alter''))
   \<and> snd (handleContribute (Some ann) (Some alterListed) NaN [] 7 True sampleStore)
       = Alert ''You have successfully signed up for this item!''
   \<and> claimed (the (wishlistItems
        (fst (handleContribute (Some ann) (Some alterListed) NaN [] 7 True sampleStore))
        ''alter''))
   \<and> contributions
        (fst (handleContribute (Some ann) (Some alterListed) NaN [] 7 True sampleStore)) ''alter''
       = []"
  by (simp add: run_defs example_defs claimed_def)

subsection \<open>Amounts that are not accepted\<close>

text \<open>
  For a cash item that takes partial contributions, an amount that is NaN or at most
  zero (negative infinity included) is answered with the invalid-amount message and the
  store is left as it was.
\<close>

lemma invalid_amount_rejected:
  assumes "contributionType (docData cur) = Cash" and "isPartialAllowed (docData cur)"
    and "amt = NaN \<or> num_le amt (Num 0)"
  shows "handleContribute (Some u) (Some cur) amt nm now storeOk d =
           (d, Alert ''Please enter a valid contribution amount.'')"
  using assms by (auto simp add: handleContribute_def Let_def nameToUse_nonempty isNaN_def)

text \<open>
  C9. The spec has every contribution to a cash item with an amount that is not a
  positive finite number fail with the invalid-amount error. With the amount NaN (the
  empty field) the Bema Table that takes partial contributions gets that message; the
  Bema Table that takes none, for which the form shows the button \<^verbatim>\<open>Contribute\<close> all
  the same, gets no message at all.
\<close>

theorem no_message_without_partial:
  "handleContribute (Some ann) (Some bemaListed) NaN [] 7 True sampleStore
     = (sampleStore, Alert ''Please enter a valid contribution amount.'')
   \<and> contributionType bemaExact = Cash \<and> \<not> isPartialAllowed bemaExact
   \<and> submitShown \<lparr>itemId = ''bema'', docData = bemaExact\<rparr>
   \<and> snd (handleContribute (Some ann) (Some \<lparr>itemId = ''bema'', docData = bemaExact\<rparr>) NaN [] 7
            True (storeWith ''bema'' bemaExact))
       \<noteq> Alert ''Please enter a valid contribution amount.''
   \<and> snd (handleContribute (Some ann) (Some \<lparr>itemId = ''bema'', docData = bemaExact\<rparr>) NaN [] 7
            True (storeWith ''bema'' bemaExact)) = Silent"
  by (simp add: run_defs example_defs submitShown_def)

subsection \<open>What a successful cash contribution changes\<close>

text \<open>
  C10. The handler shows its thanks only for a cash item that takes partial
  contributions. When it does (the contribution succeeded), the item document differs
  from the old one only in
  \<^verbatim>\<open>currentContributions\<close> and \<^verbatim>\<open>status\<close>: it is stored under the same id, and
  \<^verbatim>\<open>itemName\<close>, \<^verbatim>\<open>category\<close>, \<^verbatim>\<open>expectedCost\<close>, \<^verbatim>\<open>contributionType\<close>, \<^verbatim>\<open>isPartialAllowed\<close>,
  \<^verbatim>\<open>dateNeeded\<close> and \<^verbatim>\<open>createdAt\<close> are unchanged. No other item document changes. The
  item's log grows by exactly one record, which carries the user's id, the name used,
  the amount and the time; no other log changes.
\<close>

theorem contribute_frame:
  assumes "handleContribute usr (Some cur) amt nm now storeOk d =
           (d', Alert ''Thank you for your contribution!'')"
  shows "contributionType (docData cur) = Cash \<and> isPartialAllowed (docData cur)
      \<and> (\<exists>u it it'. usr = Some u \<and> wishlistItems d (itemId cur) = Some it
            \<and> wishlistItems d' = (wishlistItems d)(itemId cur \<mapsto> it')
            \<and> it' = it\<lparr>currentContributions := num_add (orZero (currentContributions it)) amt,
                        status := status it'\<rparr>
            \<and> itemName it' = itemName it \<and> category it' = category it
            \<and> expectedCost it' = expectedCost it \<and> contributionType it' = contributionType it
            \<and> isPartialAllowed it' = isPartialAllowed it \<and> dateNeeded it' = dateNeeded it
            \<and> createdAt it' = createdAt it
            \<and> contributions d' = (contributions d)(itemId cur := contributions d (itemId cur) @
                  [\<lparr>userId = uid u, amount = amt, timestamp = now,
                    c_contributorName = nameToUse u nm\<rparr>]))"
  using assms
  by (auto simp: handleContribute_def Let_def nameToUse_nonempty runTransaction_def
        contributeTx_def updateDoc_def split: option.splits if_splits)

text \<open>
  The theorem at a contribution of 100 by \<open>ann\<close> to the Bema Table.
\<close>

theorem contribute_frame_witness:
  "snd (handleContribute (Some ann) (Some bemaListed) (Num 100) [] 7 True sampleStore)
       = Alert ''Thank you for your contribution!''
   \<and> contributionType (docData bemaListed) = Cash \<and> isPartialAllowed (docData bemaListed)
   \<and> contributions
        (fst (handleContribute (Some ann) (Some bemaListed) (Num 100) [] 7 True sampleStore))
        ''bema''
       = [\<lparr>userId = ''ann'', amount = Num 100, timestamp = 7, c_contributorName = ''Ann''\<rparr>]
   \<and> itemName (the (wishlistItems
        (fst (handleContribute (Some ann) (Some bemaListed) (Num 100) [] 7 True sampleStore))
        ''bema'')) = ''Bema Table''"
proof -
  obtain d' out where run:
    "handleContribute (Some ann) (Some bemaListed) (Num 100) [] 7 True sampleStore = (d', out)"
    by (cases "handleContribute (Some ann) (Some bemaListed) (Num 100) [] 7 True sampleStore")
  have out: "out = Alert ''Thank you for your contribution!''"
    using run by (simp add: run_defs example_defs double_eval split: prod.splits)
  from contribute_frame [OF run [unfolded out]] show ?thesis
    using run out by (auto simp: example_defs nameToUse_def)
qed

end
